theory Spec2Isabelle
  imports Main
begin

section \<open>Errors (errors.go)\<close>

text \<open>
  The four error structs of the package. \<open>ErrServerStopped\<close> has no field; the others
  carry a \<open>reason\<close>. \<open>Error\<close> is the method \<open>Error()\<close> of each.
\<close>

datatype error =
    ErrServerCreate string
  | ErrServerStopped
  | ErrServerGenericError string
  | ErrListenerCreate string

fun Error :: "error \<Rightarrow> string" where
  "Error (ErrServerCreate reason) = ''error creating server: '' @ reason"
| "Error ErrServerStopped = ''server is stopped''"
| "Error (ErrServerGenericError reason) = ''server error: '' @ reason"
| "Error (ErrListenerCreate reason) = ''error creating listener: '' @ reason"

text \<open>
  A Go call either returns or panics. A panic carries the message of the runtime or of
  the library; the message of an index out of range is kept without the index and the
  length the runtime adds.
\<close>

datatype 'a exec = Panic string | Done 'a

section \<open>Listener (the backend)\<close>

type_synonym IP = "nat list"

record ListenerHealthCheckConfig =
  hc_port :: int
  hc_path :: string
  hc_timeout :: int

text \<open>
  The struct \<open>Listener\<close>. The field \<open>wg\<close> is a pointer to a \<open>sync.WaitGroup\<close>:
  \<open>None\<close> is the nil pointer, \<open>Some n\<close> a wait group whose counter is \<open>n\<close>.
  \<open>healthCheckConfig\<close> is a pointer too. The field \<open>id\<close> is written \<open>id'\<close>
  and holds the string \<open>id.String()\<close> returns. The field \<open>httpClient\<close> is the zero
  \<open>http.Client\<close> for every listener; its \<open>Do\<close> is a parameter of the functions
  that call it.
\<close>

record Listener =
  id' :: string
  targetIp :: IP
  targetPort :: int
  healthCheckConfig :: "ListenerHealthCheckConfig option"
  weight :: int
  wg :: "nat option"

type_synonym ListenerConfig = "Listener \<Rightarrow> Listener"

definition WithListenerHealthCheck :: "int \<Rightarrow> string \<Rightarrow> int \<Rightarrow> ListenerConfig" where
  "WithListenerHealthCheck port path timeout =
     (\<lambda>l. l\<lparr>healthCheckConfig := Some \<lparr>hc_port = port, hc_path = path, hc_timeout = timeout\<rparr>\<rparr>)"

definition WithWeight :: "int \<Rightarrow> ListenerConfig" where
  "WithWeight weight0 =
     (let weight1 = (if weight0 < 0 then 0 else if weight0 > 100 then 100 else weight0)
      in (\<lambda>l. l\<lparr>weight := weight1\<rparr>))"

section \<open>HTTP values\<close>

text \<open>
  \<open>http.Header\<close> is a \<open>map[string][]string\<close>. \<open>Get\<close> returns the first value of a
  key, or the empty string when the key has none; \<open>Set\<close> replaces the values of a key
  by one value. Keys are in canonical form.
\<close>

type_synonym Header = "string \<Rightarrow> string list option"

definition Header_Get :: "Header \<Rightarrow> string \<Rightarrow> string" where
  "Header_Get h key = (case h key of None \<Rightarrow> [] | Some [] \<Rightarrow> [] | Some (v # vs) \<Rightarrow> v)"

definition Header_Set :: "Header \<Rightarrow> string \<Rightarrow> string \<Rightarrow> Header" where
  "Header_Set h key v = h(key \<mapsto> [v])"

record Request =
  Method :: string
  URL :: string
  Body :: string
  Header :: Header
  Host :: string
  RemoteAddr :: string

record Response =
  StatusCode :: int
  RespBody :: string

definition StatusOK :: int where
  "StatusOK = 200"

definition StatusInternalServerError :: int where
  "StatusInternalServerError = 500"

definition StatusBadGateway :: int where
  "StatusBadGateway = 502"

definition StatusServiceUnavailable :: int where
  "StatusServiceUnavailable = 503"

text \<open>
  An \<open>http.ResponseWriter\<close>: the status code written so far (\<open>None\<close> before the
  first \<open>WriteHeader\<close>) and the bytes written to the body. \<open>WriteHeader\<close> after the
  first one changes nothing; \<open>Write\<close> writes the status 200 first when none is
  written. \<open>http_Error\<close> is \<open>http.Error\<close>: the status, then the message and a
  newline. \<open>io_Copy\<close> is \<open>io.Copy(w, resp.Body)\<close> on a body that is read to its end:
  it writes the bytes it reads, and writes nothing for an empty body.
  \<open>client_status\<close> is the status the client receives once the handler has returned:
  200 when the handler wrote none.
\<close>

record ResponseWriter =
  status :: "int option"
  out :: string

definition WriteHeader :: "ResponseWriter \<Rightarrow> int \<Rightarrow> ResponseWriter" where
  "WriteHeader w code = (case status w of None \<Rightarrow> w\<lparr>status := Some code\<rparr> | Some c \<Rightarrow> w)"

definition Write :: "ResponseWriter \<Rightarrow> string \<Rightarrow> ResponseWriter" where
  "Write w bytes = (let w' = WriteHeader w StatusOK in w'\<lparr>out := out w' @ bytes\<rparr>)"

definition http_Error :: "ResponseWriter \<Rightarrow> string \<Rightarrow> int \<Rightarrow> ResponseWriter" where
  "http_Error w msg code = Write (WriteHeader w code) (msg @ [CHR 0x0A])"

definition io_Copy :: "ResponseWriter \<Rightarrow> string \<Rightarrow> ResponseWriter" where
  "io_Copy w body = (if body = [] then w else Write w body)"

definition client_status :: "ResponseWriter \<Rightarrow> int" where
  "client_status w = (case status w of None \<Rightarrow> StatusOK | Some c \<Rightarrow> c)"

text \<open>
  The calls into Go's standard library are parameters, collected in the record \<open>lib\<close>:
  \<open>SplitHostPort\<close> is \<open>net.SplitHostPort\<close> (an error, or host and port),
  \<open>ParseIP\<close> is \<open>net.ParseIP\<close> (nil is \<open>None\<close>), \<open>Atoi\<close> and \<open>Itoa\<close> are
  those of \<open>strconv\<close>, \<open>IP_String\<close> is \<open>net.IP.String\<close>, \<open>JoinHostPort\<close> is
  \<open>net.JoinHostPort\<close>, \<open>NewRequest\<close> is \<open>http.NewRequest\<close> and \<open>Do\<close> is
  \<open>http.Client.Do\<close>, the round trip to the target (an error, or its response).
  The argument \<open>uuid\<close> of \<open>NewListener\<close> is the value \<open>uuid.New()\<close> returns at
  this call, as the string \<open>id.String()\<close> gives.
\<close>

record lib =
  SplitHostPort :: "string \<Rightarrow> string + (string \<times> string)"
  ParseIP :: "string \<Rightarrow> IP option"
  Atoi :: "string \<Rightarrow> string + int"
  Itoa :: "int \<Rightarrow> string"
  IP_String :: "IP \<Rightarrow> string"
  JoinHostPort :: "string \<Rightarrow> string \<Rightarrow> string"
  NewRequest :: "string \<Rightarrow> string \<Rightarrow> string \<Rightarrow> string + Request"
  Do :: "Request \<Rightarrow> string + Response"

fun apply_configs :: "ListenerConfig list \<Rightarrow> Listener \<Rightarrow> Listener" where
  "apply_configs [] l = l"
| "apply_configs (c # cs) l = apply_configs cs (c l)"

definition NewListener :: "lib \<Rightarrow> string \<Rightarrow> string \<Rightarrow> ListenerConfig list \<Rightarrow> error + Listener" where
  "NewListener lb uuid targetAddr config =
     (case SplitHostPort lb targetAddr of
        Inl err \<Rightarrow> Inl (ErrListenerCreate (''unable to parse address '' @ targetAddr))
      | Inr (ip, port) \<Rightarrow>
          (case ParseIP lb ip of
             None \<Rightarrow> Inl (ErrListenerCreate (''unable to parse IP address '' @ ip))
           | Some parsedIp \<Rightarrow>
               (case Atoi lb port of
                  Inl err \<Rightarrow>
                    Inl (ErrListenerCreate
                      (''unable to convert port '' @ port @ '' from string to int''))
                | Inr parsedPort \<Rightarrow>
                    Inr (apply_configs config
                      \<lparr>id' = uuid, targetIp = parsedIp, targetPort = parsedPort,
                       healthCheckConfig = None, weight = 1, wg = None\<rparr>))))"

section \<open>Balancing algorithms\<close>

text \<open>
  \<open>rand.Intn\<close> draws from the global source. The source is a sequence of raw draws and
  the position of the next one; \<open>Intn n\<close> panics for \<open>n \<le> 0\<close> and otherwise returns
  the next draw reduced into \<open>[0, n)\<close>, so every value of that range can come out.
\<close>

record Rand =
  draws :: "nat \<Rightarrow> nat"
  pos :: nat

definition Intn :: "Rand \<Rightarrow> int \<Rightarrow> (int \<times> Rand) exec" where
  "Intn rng n =
     (if n \<le> 0 then Panic ''invalid argument to Intn''
      else Done (int (draws rng (pos rng) mod nat n), rng\<lparr>pos := pos rng + 1\<rparr>))"

text \<open>Indexing a slice panics out of range.\<close>

definition index :: "'a list \<Rightarrow> int \<Rightarrow> 'a exec" where
  "index xs k =
     (if 0 \<le> k \<and> k < int (length xs) then Done (xs ! nat k)
      else Panic ''runtime error: index out of range'')"

text \<open>Go's \<open>%\<close> truncates towards zero and panics on a zero divisor.\<close>

definition go_rem :: "int \<Rightarrow> int \<Rightarrow> int exec" where
  "go_rem a b =
     (if b = 0 then Panic ''runtime error: integer divide by zero''
      else Done (sgn a * (\<bar>a\<bar> mod \<bar>b\<bar>)))"

text \<open>
  A \<open>BalancingAlgorithm\<close> is a closure. The three closures the package builds are
  the constructors below; the one of \<open>RoundRobin()\<close> holds its captured cursor \<open>i\<close>.
  The cursor stays within \<open>[0, len)\<close> after every call, far from the bounds of a Go
  \<open>int\<close>, so \<open>i + 1\<close> is written without wrap-around.
\<close>

datatype BalancingAlgorithm =
    RandomAlg
  | RoundRobinAlg int
  | WeightedRoundRobinAlg

definition Random :: BalancingAlgorithm where
  "Random = RandomAlg"

definition RoundRobin :: BalancingAlgorithm where
  "RoundRobin = RoundRobinAlg 0"

definition WeightedRoundRobin :: BalancingAlgorithm where
  "WeightedRoundRobin = WeightedRoundRobinAlg"

definition DefaultBalancingAlgorithm :: BalancingAlgorithm where
  "DefaultBalancingAlgorithm = Random"

text \<open>The inner loop of \<open>WeightedRoundRobin\<close>: \<open>for j := 0; j < weight; j++\<close>.\<close>

function append_weight :: "int list \<Rightarrow> int \<Rightarrow> int \<Rightarrow> int \<Rightarrow> int list" where
  "append_weight flatSlice i j w =
     (if j < w then append_weight (flatSlice @ [i]) i (j + 1) w else flatSlice)"
  by pat_completeness auto
termination
  by (relation "measure (\<lambda>(flatSlice, i, j, w). nat (w - j))") auto

text \<open>The outer loop: \<open>for i, listener := range listeners\<close>, from index \<open>i\<close> on.\<close>

fun flatten :: "int list \<Rightarrow> int \<Rightarrow> Listener list \<Rightarrow> int list" where
  "flatten flatSlice i [] = flatSlice"
| "flatten flatSlice i (listener # rest) =
     flatten (append_weight flatSlice i 0 (weight listener)) (i + 1) rest"

text \<open>
  Calling the closure \<open>b\<close> on \<open>listeners\<close>: the listener it returns, the closure
  after the call and the random source after the call.
\<close>

fun call :: "BalancingAlgorithm \<Rightarrow> Rand \<Rightarrow> Listener list
    \<Rightarrow> (Listener \<times> BalancingAlgorithm \<times> Rand) exec" where
  "call RandomAlg rng listeners =
     (case Intn rng (int (length listeners)) of
        Panic m \<Rightarrow> Panic m
      | Done (k, rng') \<Rightarrow>
          (case index listeners k of
             Panic m \<Rightarrow> Panic m
           | Done l \<Rightarrow> Done (l, RandomAlg, rng')))"
| "call (RoundRobinAlg i) rng listeners =
     (case go_rem (i + 1) (int (length listeners)) of
        Panic m \<Rightarrow> Panic m
      | Done i' \<Rightarrow>
          (case index listeners i' of
             Panic m \<Rightarrow> Panic m
           | Done l \<Rightarrow> Done (l, RoundRobinAlg i', rng)))"
| "call WeightedRoundRobinAlg rng listeners =
     (let flatSlice = flatten [] 0 listeners in
      case Intn rng (int (length flatSlice)) of
        Panic m \<Rightarrow> Panic m
      | Done (k, rng') \<Rightarrow>
          (case index flatSlice k of
             Panic m \<Rightarrow> Panic m
           | Done j \<Rightarrow>
               (case index listeners j of
                  Panic m \<Rightarrow> Panic m
                | Done l \<Rightarrow> Done (l, WeightedRoundRobinAlg, rng'))))"

text \<open>
  \<open>pickListener\<close> returns the error for an empty slice before it calls the closure;
  the closure and the random source are then unchanged.
\<close>

definition pickListener :: "BalancingAlgorithm \<Rightarrow> Rand \<Rightarrow> Listener list
    \<Rightarrow> ((error + Listener) \<times> BalancingAlgorithm \<times> Rand) exec" where
  "pickListener b rng listeners =
     (if length listeners = 0
      then Done (Inl (ErrServerGenericError ''no listeners available''), b, rng)
      else (case call b rng listeners of
              Panic m \<Rightarrow> Panic m
            | Done (l, b', rng') \<Rightarrow> Done (Inr l, b', rng')))"

text \<open>
  Six consecutive calls of a policy are \<open>pick_times 6\<close>: each call goes through
  \<open>pickListener\<close> with the closure and the random source the call before left.
\<close>

fun pick_times :: "nat \<Rightarrow> BalancingAlgorithm \<Rightarrow> Rand \<Rightarrow> Listener list
    \<Rightarrow> ((error + Listener) list \<times> BalancingAlgorithm \<times> Rand) exec" where
  "pick_times 0 b rng listeners = Done ([], b, rng)"
| "pick_times (Suc n) b rng listeners =
     (case pickListener b rng listeners of
        Panic m \<Rightarrow> Panic m
      | Done (r, b', rng') \<Rightarrow>
          (case pick_times n b' rng' listeners of
             Panic m \<Rightarrow> Panic m
           | Done (rs, b'', rng'') \<Rightarrow> Done (r # rs, b'', rng'')))"

section \<open>Forwarding a request (Listener.handle)\<close>

definition getTargetAddr :: "lib \<Rightarrow> Listener \<Rightarrow> string" where
  "getTargetAddr lb l = JoinHostPort lb (IP_String lb (targetIp l)) (Itoa lb (targetPort l))"

text \<open>
  The methods of the wait group behind \<open>l.wg\<close>. A method called through the nil
  pointer panics. \<open>wg_Done\<close> runs deferred, after \<open>wg_Add\<close> has returned, so the
  pointer is not nil there and the counter is positive.
\<close>

definition wg_Add :: "Listener \<Rightarrow> nat \<Rightarrow> Listener exec" where
  "wg_Add l delta =
     (case wg l of
        None \<Rightarrow> Panic ''runtime error: invalid memory address or nil pointer dereference''
      | Some n \<Rightarrow> Done (l\<lparr>wg := Some (n + delta)\<rparr>))"

definition wg_Done :: "Listener \<Rightarrow> Listener" where
  "wg_Done l = l\<lparr>wg := map_option (\<lambda>n. n - 1) (wg l)\<rparr>"

text \<open>
  \<open>Listener_handle\<close> is the method \<open>handle\<close> of \<open>Listener\<close>. It returns the
  listener (its counter after the deferred \<open>Done\<close>), the response writer, and the
  requests it passed to \<open>Do\<close>, in order. \<open>proxyReq.Header = r.Header\<close> makes both
  requests share one header map; each \<open>Get\<close> below happens before the \<open>Set\<close> that
  follows it, so the values read are those of the inbound request.
\<close>

definition Listener_handle :: "lib \<Rightarrow> Listener \<Rightarrow> ResponseWriter \<Rightarrow> Request
    \<Rightarrow> (Listener \<times> ResponseWriter \<times> Request list) exec" where
  "Listener_handle lb l w r =
     (case wg_Add l 1 of
        Panic m \<Rightarrow> Panic m
      | Done l1 \<Rightarrow>
          (case NewRequest lb (Method r) (''http://'' @ getTargetAddr lb l1) (Body r) of
             Inl err \<Rightarrow>
               Done (wg_Done l1,
                 http_Error w ''unable to create forwarded request'' StatusInternalServerError, [])
           | Inr proxyReq0 \<Rightarrow>
               (let proxyReq1 = proxyReq0\<lparr>Header := Header r\<rparr>;
                    proxyReq2 =
                      (if Header_Get (Header r) ''X-Forwarded-For'' \<noteq> []
                       then proxyReq1\<lparr>Header := Header_Set (Header proxyReq1) ''X-Forwarded-For''
                              (Header_Get (Header r) ''X-Forwarded-For'' @ '','' @ RemoteAddr r)\<rparr>
                       else proxyReq1\<lparr>Header := Header_Set (Header proxyReq1) ''X-Forwarded-For''
                              (RemoteAddr r)\<rparr>)
                in case SplitHostPort lb (Host r) of
                     Inl err \<Rightarrow>
                       Done (wg_Done l1,
                         http_Error w ''unable to create forwarded request''
                           StatusInternalServerError, [])
                   | Inr (h, connectedLoadBalancerPort) \<Rightarrow>
                       (let proxyReq3 = proxyReq2\<lparr>Header := Header_Set (Header proxyReq2)
                              ''X-Forwarded-Port'' connectedLoadBalancerPort\<rparr>
                        in case Do lb proxyReq3 of
                             Inl err \<Rightarrow>
                               Done (wg_Done l1,
                                 http_Error w ''error forwarding request''
                                   StatusInternalServerError, [proxyReq3])
                           | Inr resp \<Rightarrow>
                               Done (wg_Done l1, io_Copy w (RespBody resp), [proxyReq3])))))"

text \<open>What a call of \<open>Listener_handle\<close> left in the writer, and what it sent.\<close>

fun writer_of :: "(Listener \<times> ResponseWriter \<times> Request list) exec \<Rightarrow> ResponseWriter option" where
  "writer_of (Panic m) = None"
| "writer_of (Done (l, w, sent)) = Some w"

fun sent_of :: "(Listener \<times> ResponseWriter \<times> Request list) exec \<Rightarrow> Request list" where
  "sent_of (Panic m) = []"
| "sent_of (Done (l, w, sent)) = sent"

definition sent_headers :: "(Listener \<times> ResponseWriter \<times> Request list) exec \<Rightarrow> string
    \<Rightarrow> string list option list" where
  "sent_headers x key = map (\<lambda>q. Header q key) (sent_of x)"

section \<open>Server (the pool and the dispatcher)\<close>

text \<open>
  The struct \<open>Server\<close>. \<open>unhealthyListeners\<close> is a \<open>map[string]bool\<close>; reading a
  key it does not hold gives \<open>false\<close>, also when the map is nil, and the functions
  below only read it. \<open>balancingAlgorithm\<close> holds the closure with its state.
\<close>

record Server =
  listeners :: "Listener list"
  unhealthyListeners :: "string \<Rightarrow> bool option"
  ip :: IP
  stopped :: bool
  balancingAlgorithm :: BalancingAlgorithm

definition map_index :: "(string \<Rightarrow> bool option) \<Rightarrow> string \<Rightarrow> bool" where
  "map_index m key = (case m key of None \<Rightarrow> False | Some v \<Rightarrow> v)"

definition AddListener :: "Server \<Rightarrow> Listener \<Rightarrow> Server" where
  "AddListener s listener = s\<lparr>listeners := listeners s @ [listener]\<rparr>"

text \<open>
  The selection loop of \<open>Server.handle\<close>:
  \<open>for listener == nil || s.unhealthyListeners[listener.id.String()] { ... }\<close>.
  The variable \<open>listener\<close> is nil (\<open>None\<close>) before the first iteration. The loop has
  no bound in the source, so the function is partial: \<open>None\<close> is a loop that never
  ends. Inside, \<open>Done (Inl err, _)\<close> is the early return after \<open>pickListener\<close>
  failed, and \<open>Done (Inr l, _)\<close> is leaving the loop with the listener \<open>l\<close>.
  A nil \<open>listener\<close> keeps the loop running, so the loop is never left with one:
  the case \<open>None\<close> of the last branch is never taken.
\<close>

partial_function (option) select_loop :: "Listener list \<Rightarrow> (string \<Rightarrow> bool option)
    \<Rightarrow> Listener option \<Rightarrow> BalancingAlgorithm \<Rightarrow> Rand
    \<Rightarrow> ((error + Listener) \<times> BalancingAlgorithm \<times> Rand) exec option" where
  "select_loop ls unhealthy listener b rng =
     (if (case listener of None \<Rightarrow> True | Some l \<Rightarrow> map_index unhealthy (id' l))
      then (case pickListener b rng ls of
              Panic m \<Rightarrow> Some (Panic m)
            | Done (Inl err, b', rng') \<Rightarrow> Some (Done (Inl err, b', rng'))
            | Done (Inr selected, b', rng') \<Rightarrow> select_loop ls unhealthy (Some selected) b' rng')
      else (case listener of
              None \<Rightarrow> Some (Panic ''runtime error: invalid memory address or nil pointer dereference'')
            | Some l \<Rightarrow> Some (Done (Inr l, b, rng))))"

text \<open>
  \<open>Server_handle\<close> is the method \<open>handle\<close> of \<open>Server\<close>: the server (its closure
  after the calls), the random source, the response writer and the requests sent to a
  target. The counter of the chosen listener is back at its value when the call returns,
  so the listeners of the server are as before.
\<close>

definition Server_handle :: "lib \<Rightarrow> Server \<Rightarrow> Rand \<Rightarrow> ResponseWriter \<Rightarrow> Request
    \<Rightarrow> (Server \<times> Rand \<times> ResponseWriter \<times> Request list) exec option" where
  "Server_handle lb s rng w r =
     (if stopped s
      then Some (Done (s, rng, http_Error w ''server is stopped'' StatusServiceUnavailable, []))
      else (case select_loop (listeners s) (unhealthyListeners s) None (balancingAlgorithm s) rng of
              None \<Rightarrow> None
            | Some (Panic m) \<Rightarrow> Some (Panic m)
            | Some (Done (Inl err, b', rng')) \<Rightarrow>
                Some (Done (s\<lparr>balancingAlgorithm := b'\<rparr>, rng',
                  http_Error w ''load balancer internal error'' StatusServiceUnavailable, []))
            | Some (Done (Inr listener, b', rng')) \<Rightarrow>
                (case Listener_handle lb listener w r of
                   Panic m \<Rightarrow> Some (Panic m)
                 | Done (l', w', sent) \<Rightarrow>
                     Some (Done (s\<lparr>balancingAlgorithm := b'\<rparr>, rng', w', sent)))))"

text \<open>
  \<open>Stop\<close>. \<open>wg.Wait()\<close> panics through a nil pointer, returns at once when the
  counter is zero and otherwise blocks until other goroutines have brought it to zero;
  no other goroutine runs inside one call, so a positive counter is the outcome
  \<open>Blocked\<close>. The result is the outcome and the server as the call left it.
\<close>

datatype outcome = Returned "error option" | Panicked string | Blocked

fun wait_all :: "Listener list \<Rightarrow> outcome" where
  "wait_all [] = Returned None"
| "wait_all (listener # rest) =
     (case wg listener of
        None \<Rightarrow> Panicked ''runtime error: invalid memory address or nil pointer dereference''
      | Some 0 \<Rightarrow> wait_all rest
      | Some (Suc n) \<Rightarrow> Blocked)"

definition Stop :: "Server \<Rightarrow> outcome \<times> Server" where
  "Stop s =
     (if stopped s then (Returned (Some ErrServerStopped), s)
      else (let s' = s\<lparr>stopped := True\<rparr> in (wait_all (listeners s'), s')))"

section \<open>Concrete inputs\<close>

text \<open>
  A library to run the functions on concrete inputs. It agrees with Go's on the inputs
  used below: \<open>SplitHostPort0\<close> splits an address without brackets at its last colon,
  and fails when there is no colon ("missing port in address") or when the host part
  has one ("too many colons in address"); \<open>ParseIP0\<close> knows the loopback address of
  the program's \<open>main\<close>; \<open>Atoi0\<close> and \<open>Itoa0\<close> read and print unsigned decimals;
  \<open>NewRequest0\<close> builds the request for a valid method and URL. The round trip
  \<open>Do\<close> is the argument of \<open>lib0\<close>.
\<close>

definition SplitHostPort0 :: "string \<Rightarrow> string + (string \<times> string)" where
  "SplitHostPort0 hostport =
     (if CHR '':'' \<notin> set hostport then Inl ''missing port in address''
      else (let port = rev (takeWhile (\<lambda>c. c \<noteq> CHR '':'') (rev hostport));
                host = take (length hostport - length port - 1) hostport
            in if CHR '':'' \<in> set host then Inl ''too many colons in address''
               else Inr (host, port)))"

definition ParseIP0 :: "string \<Rightarrow> IP option" where
  "ParseIP0 s = (if s = ''127.0.0.1'' then Some [127, 0, 0, 1] else None)"

definition is_digit :: "char \<Rightarrow> bool" where
  "is_digit c = (c \<in> set ''0123456789'')"

definition Atoi0 :: "string \<Rightarrow> string + int" where
  "Atoi0 s =
     (if s \<noteq> [] \<and> list_all is_digit s
      then Inr (foldl (\<lambda>a c. 10 * a + (of_char c - 48)) 0 s)
      else Inl ''invalid syntax'')"

fun Itoa0 :: "int \<Rightarrow> string" where
  "Itoa0 n =
     (if n < 10 then [''0123456789'' ! nat n]
      else Itoa0 (n div 10) @ [''0123456789'' ! nat (n mod 10)])"

definition IP_String0 :: "IP \<Rightarrow> string" where
  "IP_String0 a =
     (case a of
        [] \<Rightarrow> ''<nil>''
      | x # xs \<Rightarrow> foldl (\<lambda>s y. s @ ''.'' @ Itoa0 (int y)) (Itoa0 (int x)) xs)"

definition NewRequest0 :: "string \<Rightarrow> string \<Rightarrow> string \<Rightarrow> string + Request" where
  "NewRequest0 method url body =
     Inr \<lparr>Method = method, URL = url, Body = body, Header = Map.empty,
          Host = drop 7 url, RemoteAddr = []\<rparr>"

definition lib0 :: "(Request \<Rightarrow> string + Response) \<Rightarrow> lib" where
  "lib0 do =
     \<lparr>SplitHostPort = SplitHostPort0, ParseIP = ParseIP0, Atoi = Atoi0, Itoa = Itoa0,
      IP_String = IP_String0, JoinHostPort = (\<lambda>host port. host @ '':'' @ port),
      NewRequest = NewRequest0, Do = do\<rparr>"

text \<open>
  Three listeners as \<open>NewListener\<close> returns them for the targets of \<open>main\<close>
  (default weight, no health check, \<open>wg\<close> never set), a random source, and the
  configurations the package exports.
\<close>

definition listenerA :: Listener where
  "listenerA = \<lparr>id' = ''A'', targetIp = [127, 0, 0, 1], targetPort = 8082,
     healthCheckConfig = None, weight = 1, wg = None\<rparr>"

definition listenerB :: Listener where
  "listenerB = \<lparr>id' = ''B'', targetIp = [127, 0, 0, 1], targetPort = 8083,
     healthCheckConfig = None, weight = 1, wg = None\<rparr>"

definition listenerC :: Listener where
  "listenerC = \<lparr>id' = ''C'', targetIp = [127, 0, 0, 1], targetPort = 8084,
     healthCheckConfig = None, weight = 1, wg = None\<rparr>"

definition rng0 :: Rand where
  "rng0 = \<lparr>draws = (\<lambda>k. 7 * k + 3), pos = 0\<rparr>"

definition exported_config :: "ListenerConfig \<Rightarrow> bool" where
  "exported_config c \<longleftrightarrow>
     (\<exists>w. c = WithWeight w) \<or> (\<exists>port path timeout. c = WithListenerHealthCheck port path timeout)"

text \<open>
  A response writer nothing has been written to, and requests as the HTTP server hands
  them to \<open>Server.handle\<close>: one sent to the load balancer of \<open>main\<close> at
  \<open>127.0.0.1:8080\<close>, the same with an \<open>X-Forwarded-For\<close> header, the same with that
  header present and empty, and one whose \<open>Host\<close> names no port.
\<close>

definition w0 :: ResponseWriter where
  "w0 = \<lparr>status = None, out = []\<rparr>"

definition request0 :: Request where
  "request0 = \<lparr>Method = ''GET'', URL = ''/'', Body = [], Header = Map.empty,
     Host = ''127.0.0.1:8080'', RemoteAddr = ''5.6.7.8''\<rparr>"

definition request_xff :: Request where
  "request_xff = request0\<lparr>Header := [''X-Forwarded-For'' \<mapsto> [''1.2.3.4'']]\<rparr>"

definition request_empty_xff :: Request where
  "request_empty_xff = request0\<lparr>Header := [''X-Forwarded-For'' \<mapsto> [[]]]\<rparr>"

definition request_no_port :: Request where
  "request_no_port = request0\<lparr>Host := ''example.com''\<rparr>"

text \<open>
  Targets: the mock server of \<open>main\<close>, which answers 200, and one that answers 404.
\<close>

definition target_ok :: "Request \<Rightarrow> string + Response" where
  "target_ok q = Inr \<lparr>StatusCode = 200, RespBody = ''Hello from mock server''\<rparr>"

definition target_404 :: "Request \<Rightarrow> string + Response" where
  "target_404 q = Inr \<lparr>StatusCode = 404, RespBody = ''not found''\<rparr>"

text \<open>
  The server of \<open>main\<close> after \<open>NewServer\<close> and two calls of \<open>AddListener\<close>, and a
  server with the round-robin policy whose two listeners are both marked unhealthy.
\<close>

definition server0 :: Server where
  "server0 = \<lparr>listeners = [], unhealthyListeners = Map.empty, ip = [127, 0, 0, 1],
     stopped = False, balancingAlgorithm = DefaultBalancingAlgorithm\<rparr>"

definition server_main :: Server where
  "server_main = AddListener (AddListener server0 listenerA) listenerB"

definition server_down :: "BalancingAlgorithm \<Rightarrow> Server" where
  "server_down b = server_main
     \<lparr>unhealthyListeners := [''A'' \<mapsto> True, ''B'' \<mapsto> True], balancingAlgorithm := b\<rparr>"

text \<open>
  The hidden state of a policy that never makes \<open>pickListener\<close> panic on a non-empty
  list: uniform-random, and round-robin with a cursor that is not negative.
\<close>

definition steady :: "BalancingAlgorithm \<Rightarrow> bool" where
  "steady b \<longleftrightarrow> b = RandomAlg \<or> (\<exists>i. 0 \<le> i \<and> b = RoundRobinAlg i)"

text \<open>
  The value \<open>Listener.handle\<close> gives the outbound header \<open>X-Forwarded-For\<close>.
\<close>

definition xff_value :: "Request \<Rightarrow> string" where
  "xff_value r =
     (if Header_Get (Header r) ''X-Forwarded-For'' \<noteq> []
      then Header_Get (Header r) ''X-Forwarded-For'' @ '','' @ RemoteAddr r
      else RemoteAddr r)"

section \<open>Selection policies\<close>

declare append_weight.simps [simp del]

declare Itoa0.simps [simp del]

text \<open>
  C8. On an empty list of listeners, \<open>pickListener\<close> returns the error
  \<open>ErrServerGenericError\<close> with the reason "no listeners available" and no listener,
  whatever the policy is: uniform-random, round-robin (with any cursor) or weighted
  round-robin. The closure and the random source are left as they were.
\<close>

theorem pickListener_empty:
  "pickListener b rng [] =
     Done (Inl (ErrServerGenericError ''no listeners available''), b, rng)
   \<and> pickListener Random rng [] =
     Done (Inl (ErrServerGenericError ''no listeners available''), Random, rng)
   \<and> pickListener RoundRobin rng [] =
     Done (Inl (ErrServerGenericError ''no listeners available''), RoundRobin, rng)
   \<and> pickListener WeightedRoundRobin rng [] =
     Done (Inl (ErrServerGenericError ''no listeners available''), WeightedRoundRobin, rng)"
  by (simp add: pickListener_def)

subsection \<open>Round-robin\<close>

lemma go_rem_nonneg: "0 \<le> a \<Longrightarrow> 0 < b \<Longrightarrow> go_rem a b = Done (a mod b)"
  by (simp add: go_rem_def sgn_if)

lemma RoundRobin_step3:
  assumes "0 \<le> i"
  shows "pickListener (RoundRobinAlg i) rng [A, B, C] =
     Done (Inr ([A, B, C] ! nat ((i + 1) mod 3)), RoundRobinAlg ((i + 1) mod 3), rng)"
proof -
  have r: "go_rem (i + 1) 3 = Done ((i + 1) mod 3)"
    using assms by (simp add: go_rem_nonneg)
  have b: "0 \<le> (i + 1) mod 3" "(i + 1) mod 3 < 3" by simp_all
  show ?thesis
    using b by (simp add: pickListener_def r index_def)
qed

lemma RoundRobin_step3_from:
  assumes "0 \<le> i"
  shows "pickListener (RoundRobinAlg ((i + k) mod 3)) rng [A, B, C] =
     Done (Inr ([A, B, C] ! nat ((i + (k + 1)) mod 3)), RoundRobinAlg ((i + (k + 1)) mod 3), rng)"
proof -
  have "((i + k) mod 3 + 1) mod 3 = (i + (k + 1)) mod 3"
    by (simp add: mod_simps add.assoc)
  then show ?thesis
    using RoundRobin_step3 [of "(i + k) mod 3" rng A B C] by simp
qed

lemma pick_times_step:
  "pickListener b rng ls = Done (r, b', rng') \<Longrightarrow>
   pick_times n b' rng' ls = Done (rs, b'', rng'') \<Longrightarrow>
   pick_times (Suc n) b rng ls = Done (r # rs, b'', rng'')"
  by simp

lemma RoundRobin_six_run:
  assumes "0 \<le> i"
  shows "pick_times 6 (RoundRobinAlg i) rng [A, B, C] =
      Done (map (\<lambda>k. Inr ([A, B, C] ! nat ((i + k) mod 3))) [1, 2, 3, 4, 5, 6],
            RoundRobinAlg (i mod 3), rng)"
proof -
  let ?ls = "[A, B, C]"
  let ?at = "\<lambda>k. (i + k) mod 3"
  have s1: "pickListener (RoundRobinAlg i) rng ?ls =
      Done (Inr (?ls ! nat (?at 1)), RoundRobinAlg (?at 1), rng)"
    using assms by (rule RoundRobin_step3)
  have s2: "pickListener (RoundRobinAlg (?at 1)) rng ?ls =
      Done (Inr (?ls ! nat (?at 2)), RoundRobinAlg (?at 2), rng)"
    using RoundRobin_step3_from [OF assms, of 1 rng A B C] by simp
  have s3: "pickListener (RoundRobinAlg (?at 2)) rng ?ls =
      Done (Inr (?ls ! nat (?at 3)), RoundRobinAlg (?at 3), rng)"
    using RoundRobin_step3_from [OF assms, of 2 rng A B C] by simp
  have s4: "pickListener (RoundRobinAlg (?at 3)) rng ?ls =
      Done (Inr (?ls ! nat (?at 4)), RoundRobinAlg (?at 4), rng)"
    using RoundRobin_step3_from [OF assms, of 3 rng A B C] by simp
  have s5: "pickListener (RoundRobinAlg (?at 4)) rng ?ls =
      Done (Inr (?ls ! nat (?at 5)), RoundRobinAlg (?at 5), rng)"
    using RoundRobin_step3_from [OF assms, of 4 rng A B C] by simp
  have s6: "pickListener (RoundRobinAlg (?at 5)) rng ?ls =
      Done (Inr (?ls ! nat (?at 6)), RoundRobinAlg (?at 6), rng)"
    using RoundRobin_step3_from [OF assms, of 5 rng A B C] by simp
  have p0: "pick_times 0 (RoundRobinAlg (?at 6)) rng ?ls = Done ([], RoundRobinAlg (?at 6), rng)"
    by simp
  note p6 = pick_times_step [OF s1 pick_times_step [OF s2 pick_times_step [OF s3
      pick_times_step [OF s4 pick_times_step [OF s5 pick_times_step [OF s6 p0]]]]]]
  have n6: "(6::nat) = Suc (Suc (Suc (Suc (Suc (Suc 0)))))" by simp
  have e: "(i + 6) mod 3 = i mod 3" by presburger
  have m3: "(i + 3) mod 3 = i mod 3" by presburger
  show ?thesis
    unfolding n6 using p6 by (simp add: e m3 del: pick_times.simps)
qed

lemma RoundRobin_six_count:
  "count_list (map (\<lambda>k. Inr ([A, B, C] ! nat ((i + k) mod 3))) [1, 2, 3, 4, 5, 6])
      (Inr x :: error + Listener) = 2 * count_list [A, B, C] x"
proof -
  have c3: "i mod 3 = 0 \<or> i mod 3 = 1 \<or> i mod 3 = 2" by presburger
  have shift: "(i + k) mod 3 = (i mod 3 + k) mod 3" for k
    by (simp add: mod_simps)
  from c3 show ?thesis
  proof (elim disjE)
    assume "i mod 3 = 0" then show ?thesis by (simp add: shift)
  next
    assume "i mod 3 = 1" then show ?thesis by (simp add: shift)
  next
    assume "i mod 3 = 2" then show ?thesis by (simp add: shift)
  qed
qed

text \<open>
  C9. Round-robin over three listeners \<open>[A, B, C]\<close>, the list unchanged between the
  calls. From any cursor \<open>i \<ge> 0\<close> (a new closure has \<open>i = 0\<close>), six consecutive
  calls return the listeners at the indices \<open>(i + 1) mod 3\<close>, ..., \<open>(i + 6) mod 3\<close>:
  each call moves the cursor one step on, modulo 3, and returns the listener at the
  cursor. Every listener is returned twice as often as it stands in the list, so each
  of three distinct listeners exactly twice. No random draw is made.
\<close>

theorem RoundRobin_three_listeners_six_calls:
  assumes "0 \<le> i"
  shows "let rs = map (\<lambda>k. Inr ([A, B, C] ! nat ((i + k) mod 3))) [1, 2, 3, 4, 5, 6] in
     pick_times 6 (RoundRobinAlg i) rng [A, B, C] = Done (rs, RoundRobinAlg (i mod 3), rng)
     \<and> (\<forall>x. count_list rs (Inr x) = 2 * count_list [A, B, C] x)"
  unfolding Let_def using RoundRobin_six_run [OF assms] RoundRobin_six_count by blast

theorem RoundRobin_three_listeners_six_calls_witness:
  "(0::int) \<le> 0
   \<and> pick_times 6 RoundRobin rng0 [listenerA, listenerB, listenerC] =
       Done ([Inr listenerB, Inr listenerC, Inr listenerA,
              Inr listenerB, Inr listenerC, Inr listenerA], RoundRobinAlg 0, rng0)"
proof -
  have h: "(0::int) \<le> 0" by simp
  from RoundRobin_three_listeners_six_calls [OF h, of listenerA listenerB listenerC rng0]
  show ?thesis by (simp add: Let_def RoundRobin_def)
qed

subsection \<open>Weighted round-robin\<close>

lemma append_weight_nonpos: "w \<le> j \<Longrightarrow> append_weight flatSlice i j w = flatSlice"
  by (subst append_weight.simps) simp

lemma flatten_nonpos:
  "\<forall>l \<in> set ls. weight l \<le> 0 \<Longrightarrow> flatten flatSlice i ls = flatSlice"
  by (induction ls arbitrary: flatSlice i) (simp_all add: append_weight_nonpos)

lemma WeightedRoundRobin_all_zero:
  assumes "ls \<noteq> []" "\<forall>l \<in> set ls. weight l = 0"
  shows "pickListener WeightedRoundRobin rng ls = Panic ''invalid argument to Intn''"
proof -
  have "flatten [] 0 ls = []"
    using assms(2) by (intro flatten_nonpos) simp
  then show ?thesis
    using assms(1) by (simp add: pickListener_def WeightedRoundRobin_def Intn_def)
qed

text \<open>
  C2. Weighted round-robin on a non-empty list whose listeners all have weight 0. The
  flattened slice is empty, and \<open>rand.Intn(0)\<close> panics: the call does not return
  the error "no listeners available", it does not return at all. Here on two listeners
  configured with \<open>WithWeight(0)\<close>.
\<close>

theorem WeightedRoundRobin_zero_weights_panics:
  "pickListener WeightedRoundRobin rng0 [WithWeight 0 listenerA, WithWeight 0 listenerB] =
     Panic ''invalid argument to Intn''"
  by (rule WeightedRoundRobin_all_zero) (simp_all add: WithWeight_def)

section \<open>Listeners\<close>

lemma apply_configs_weight:
  assumes "\<forall>c \<in> set config. exported_config c" "0 \<le> weight l \<and> weight l \<le> 100"
  shows "0 \<le> weight (apply_configs config l) \<and> weight (apply_configs config l) \<le> 100"
  using assms
proof (induction config arbitrary: l)
  case Nil
  then show ?case by simp
next
  case (Cons c cs)
  have "0 \<le> weight (c l) \<and> weight (c l) \<le> 100"
    using Cons.prems by (auto simp: exported_config_def WithWeight_def WithListenerHealthCheck_def)
  with Cons show ?case by simp
qed

lemma apply_configs_wg:
  assumes "\<forall>c \<in> set config. exported_config c"
  shows "wg (apply_configs config l) = wg l"
  using assms
proof (induction config arbitrary: l)
  case Nil
  then show ?case by simp
next
  case (Cons c cs)
  have "wg (c l) = wg l"
    using Cons.prems by (auto simp: exported_config_def WithWeight_def WithListenerHealthCheck_def)
  with Cons show ?case by simp
qed

lemma NewListener_wg_nil:
  assumes "\<forall>c \<in> set config. exported_config c"
    and "NewListener lb uuid targetAddr config = Inr l"
  shows "wg l = None"
proof -
  from assms(2) obtain l0 where l: "l = apply_configs config l0" and w0: "wg l0 = None"
    by (auto simp: NewListener_def split: sum.splits option.splits prod.splits)
  show ?thesis
    unfolding l using assms(1) w0 by (simp add: apply_configs_wg)
qed

text \<open>
  C10. The weight of a listener lies in \<open>[0, 100]\<close>. \<open>NewListener\<close> starts from
  weight 1 and applies the configurations in order; a configuration is one the package
  exports, \<open>WithWeight w\<close> or \<open>WithListenerHealthCheck\<close>. \<open>WithWeight w\<close> sets the
  weight to 0 for \<open>w < 0\<close>, to 100 for \<open>w > 100\<close> and to \<open>w\<close> otherwise. So every
  listener \<open>NewListener\<close> returns has a weight in \<open>[0, 100]\<close>, and weight 1 when no
  configuration is given.
\<close>

theorem NewListener_weight_range:
  assumes "\<forall>c \<in> set config. exported_config c"
    and "NewListener lb uuid targetAddr config = Inr l"
  shows "0 \<le> weight l \<and> weight l \<le> 100
    \<and> (config = [] \<longrightarrow> weight l = 1)
    \<and> (\<forall>k w. weight (WithWeight w k) = (if w < 0 then 0 else if w > 100 then 100 else w))"
proof -
  from assms(2) obtain l0 where l: "l = apply_configs config l0" and w0: "weight l0 = 1"
    by (auto simp: NewListener_def split: sum.splits option.splits prod.splits)
  have "0 \<le> weight l \<and> weight l \<le> 100"
    unfolding l using assms(1) w0 by (intro apply_configs_weight) simp_all
  moreover have "config = [] \<longrightarrow> weight l = 1"
    using l w0 by simp
  moreover have "\<forall>k w. weight (WithWeight w k) = (if w < 0 then 0 else if w > 100 then 100 else w)"
    by (simp add: WithWeight_def)
  ultimately show ?thesis by simp
qed

theorem NewListener_weight_range_witness:
  "exported_config (WithListenerHealthCheck 8090 ''/health'' 5)
   \<and> exported_config (WithWeight 250)
   \<and> NewListener (lib0 (\<lambda>q. Inl [])) ''A'' ''127.0.0.1:8082''
        [WithListenerHealthCheck 8090 ''/health'' 5, WithWeight 250] =
      Inr \<lparr>id' = ''A'', targetIp = [127, 0, 0, 1], targetPort = 8082,
           healthCheckConfig = Some \<lparr>hc_port = 8090, hc_path = ''/health'', hc_timeout = 5\<rparr>,
           weight = 100, wg = None\<rparr>
   \<and> NewListener (lib0 (\<lambda>q. Inl [])) ''A'' ''127.0.0.1:8082'' [] = Inr listenerA
   \<and> weight listenerA = 1"
proof -
  let ?cfg = "[WithListenerHealthCheck 8090 ''/health'' 5, WithWeight 250]"
  have h1: "\<forall>c \<in> set ?cfg. exported_config c"
    by (auto simp: exported_config_def)
  have h2: "NewListener (lib0 (\<lambda>q. Inl [])) ''A'' ''127.0.0.1:8082'' ?cfg =
      Inr \<lparr>id' = ''A'', targetIp = [127, 0, 0, 1], targetPort = 8082,
           healthCheckConfig = Some \<lparr>hc_port = 8090, hc_path = ''/health'', hc_timeout = 5\<rparr>,
           weight = 100, wg = None\<rparr>"
    by (simp add: NewListener_def lib0_def SplitHostPort0_def ParseIP0_def Atoi0_def is_digit_def
        WithWeight_def WithListenerHealthCheck_def)
  have h3: "\<forall>c \<in> set ([] :: ListenerConfig list). exported_config c" by simp
  have h4: "NewListener (lib0 (\<lambda>q. Inl [])) ''A'' ''127.0.0.1:8082'' [] = Inr listenerA"
    by (simp add: NewListener_def lib0_def SplitHostPort0_def ParseIP0_def Atoi0_def is_digit_def
        listenerA_def)
  from NewListener_weight_range [OF h1 h2] NewListener_weight_range [OF h3 h4] h1 h2 h4
  show ?thesis by simp
qed

section \<open>The selection loop of the dispatcher\<close>

lemma index_in_set: "index xs k = Done x \<Longrightarrow> x \<in> set xs"
  by (auto simp: index_def split: if_splits)

lemma call_in_set: "call b rng ls = Done (l, b', rng') \<Longrightarrow> l \<in> set ls"
  by (cases b) (auto simp: Let_def dest: index_in_set split: exec.splits prod.splits)

lemma pickListener_in_set:
  "pickListener b rng ls = Done (Inr l, b', rng') \<Longrightarrow> l \<in> set ls"
  by (auto simp: pickListener_def dest: call_in_set split: if_splits exec.splits prod.splits)

lemma pickListener_error_iff:
  "pickListener b rng ls = Done (Inl e, b', rng') \<Longrightarrow> ls = []"
  by (auto simp: pickListener_def split: if_splits exec.splits prod.splits)

lemma pickListener_steady:
  assumes "steady b" "ls \<noteq> []"
  shows "\<exists>l b' rng'. pickListener b rng ls = Done (Inr l, b', rng') \<and> steady b'"
proof -
  have n: "0 < int (length ls)" using assms(2) by simp
  from assms(1) consider "b = RandomAlg" | i where "0 \<le> i" "b = RoundRobinAlg i"
    by (auto simp: steady_def)
  then show ?thesis
  proof cases
    case 1
    then show ?thesis
      using assms(2) by (simp add: pickListener_def Intn_def index_def steady_def)
  next
    case 2
    have r: "go_rem (i + 1) (int (length ls)) = Done ((i + 1) mod int (length ls))"
      using 2(1) n by (simp add: go_rem_nonneg)
    have "0 \<le> (i + 1) mod int (length ls)" "(i + 1) mod int (length ls) < int (length ls)"
      using n by simp_all
    then show ?thesis
      using assms(2) 2(2) by (simp add: pickListener_def r index_def steady_def)
  qed
qed

lemma select_loop_never_returns:
  assumes "select_loop ls u cur b rng = Some y"
    and "ls \<noteq> []" "\<forall>l \<in> set ls. map_index u (id' l)"
    and "steady b" "cur = None \<or> (\<exists>l \<in> set ls. cur = Some l)"
  shows False
  using assms(2-)
proof (induction rule: select_loop.raw_induct [OF _ assms(1)])
  case (1 loop ls u cur b rng y)
  have ne: "ls \<noteq> []" and un: "\<forall>l \<in> set ls. map_index u (id' l)" and st: "steady b"
    and cu: "cur = None \<or> (\<exists>l \<in> set ls. cur = Some l)"
    using "1.prems" by blast+
  have c: "(case cur of None \<Rightarrow> True | Some l \<Rightarrow> map_index u (id' l))"
    using un cu by auto
  obtain l b' rng' where p: "pickListener b rng ls = Done (Inr l, b', rng')" and s: "steady b'"
    using pickListener_steady [OF st ne] by blast
  have l: "l \<in> set ls" using p by (rule pickListener_in_set)
  have "loop ls u (Some l) b' rng' = Some y"
    using "1.hyps" c p by simp
  then show False
    using "1.IH" ne un s l by blast
qed

lemma select_loop_diverges:
  assumes "ls \<noteq> []" "\<forall>l \<in> set ls. map_index u (id' l)" "steady b"
  shows "select_loop ls u None b rng = None"
proof (cases "select_loop ls u None b rng")
  case None
  then show ?thesis .
next
  case (Some y)
  from select_loop_never_returns [OF Some assms] show ?thesis by simp
qed

text \<open>
  With no listener at all the loop is left at once: \<open>pickListener\<close> fails and the
  dispatcher answers 503.
\<close>

lemma Server_handle_no_listeners:
  "Server_handle lb server0 rng w r =
     Some (Done (server0, rng,
       http_Error w ''load balancer internal error'' StatusServiceUnavailable, []))"
proof -
  have "select_loop [] Map.empty None RandomAlg rng =
      Some (Done (Inl (ErrServerGenericError ''no listeners available''), RandomAlg, rng))"
    by (subst select_loop.simps) (simp add: pickListener_def)
  then show ?thesis
    by (simp add: Server_handle_def server0_def DefaultBalancingAlgorithm_def Random_def)
qed

text \<open>
  C1. A server that is not stopped, with two listeners that are both in the unhealthy
  set. Under round-robin and under uniform-random selection the loop of
  \<open>Server.handle\<close> picks an unhealthy listener at every iteration and has no bound:
  the call never returns (\<open>None\<close>). It does not answer 503, whatever the library,
  the random draws, the writer and the request are.
\<close>

theorem Server_handle_all_unhealthy_never_returns:
  "Server_handle lb (server_down RoundRobin) rng w r = None
   \<and> Server_handle lb (server_down Random) rng w r = None"
proof -
  have ne: "listeners (server_down b) \<noteq> []" for b
    by (simp add: server_down_def server_main_def AddListener_def)
  have un: "\<forall>l \<in> set (listeners (server_down b)).
      map_index (unhealthyListeners (server_down b)) (id' l)" for b
    by (simp add: server_down_def server_main_def AddListener_def server0_def map_index_def
        listenerA_def listenerB_def)
  have st: "steady RoundRobin" "steady Random"
    by (simp_all add: steady_def RoundRobin_def Random_def)
  have ns: "\<not> stopped (server_down b)" for b
    by (simp add: server_down_def server_main_def AddListener_def server0_def)
  have alg: "balancingAlgorithm (server_down b) = b" for b
    by (simp add: server_down_def)
  have "select_loop (listeners (server_down b)) (unhealthyListeners (server_down b)) None b rng = None"
    if "steady b" for b
    using ne un that by (rule select_loop_diverges)
  then show ?thesis
    using st by (simp add: Server_handle_def ns alg)
qed

section \<open>Forwarding (Listener.handle)\<close>

lemma wg_Done_after_Add: "wg l = Some n \<Longrightarrow> wg_Done (l\<lparr>wg := Some (Suc n)\<rparr>) = l"
  by (simp add: wg_Done_def)

lemma target_of_Add: "getTargetAddr lb (l\<lparr>wg := x\<rparr>) = getTargetAddr lb l"
  by (simp add: getTargetAddr_def)

lemma Listener_handle_sent:
  assumes "Listener_handle lb l w r = Done (l', w', sent)" "q \<in> set sent"
  shows "\<exists>h p. SplitHostPort lb (Host r) = Inr (h, p)
    \<and> Header q = ((Header r)(''X-Forwarded-For'' \<mapsto> [xff_value r]))(''X-Forwarded-Port'' \<mapsto> [p])"
  using assms
  by (auto simp: Listener_handle_def Let_def Header_Set_def xff_value_def
      split: exec.splits sum.splits prod.splits if_splits)

lemma Listener_handle_nil_wg:
  "wg l = None \<Longrightarrow>
   Listener_handle lb l w r = Panic ''runtime error: invalid memory address or nil pointer dereference''"
  by (simp add: Listener_handle_def wg_Add_def)

lemma Listener_handle_no_port:
  assumes "wg l = Some n" "SplitHostPort lb (Host r) = Inl e"
  shows "Listener_handle lb l w r =
    Done (l, http_Error w ''unable to create forwarded request'' StatusInternalServerError, [])"
  using assms
  by (simp add: Listener_handle_def wg_Add_def wg_Done_after_Add Let_def split: sum.splits)

lemma http_Error_status: "status w = None \<Longrightarrow> client_status (http_Error w msg code) = code"
  by (simp add: http_Error_def Write_def WriteHeader_def client_status_def Let_def)

lemma Listener_handle_relay:
  assumes "Listener_handle lb l w r = Done (l', w', sent)" "q \<in> set sent" "Do lb q = Inr resp"
  shows "w' = io_Copy w (RespBody resp)"
  using assms
  by (auto simp: Listener_handle_def Let_def split: exec.splits sum.splits prod.splits if_splits)

lemma io_Copy_status: "status w = None \<Longrightarrow> client_status (io_Copy w body) = StatusOK"
  by (simp add: io_Copy_def Write_def WriteHeader_def client_status_def Let_def)

lemma io_Copy_out: "out (io_Copy w body) = out w @ body"
  by (simp add: io_Copy_def Write_def WriteHeader_def Let_def split: option.splits)

text \<open>
  C4. \<open>NewListener\<close> never sets the field \<open>wg\<close>: the listener it returns holds
  the nil pointer. \<open>Listener.handle\<close> then panics at \<open>l.wg.Add(1)\<close>, and so does
  \<open>Server.handle\<close> once it has selected that listener, for every request.
\<close>

theorem NewListener_wg_nil_handle_panics:
  "NewListener (lib0 target_ok) ''A'' ''127.0.0.1:8082'' [] = Inr listenerA
   \<and> wg listenerA = None
   \<and> Listener_handle lb listenerA w r =
       Panic ''runtime error: invalid memory address or nil pointer dereference''
   \<and> Server_handle lb (AddListener server0 listenerA) rng w r =
       Some (Panic ''runtime error: invalid memory address or nil pointer dereference'')"
proof -
  have n: "NewListener (lib0 target_ok) ''A'' ''127.0.0.1:8082'' [] = Inr listenerA"
    by (simp add: NewListener_def lib0_def SplitHostPort0_def ParseIP0_def Atoi0_def is_digit_def
        listenerA_def)
  have w: "wg listenerA = None" by (simp add: listenerA_def)
  have h: "Listener_handle lb listenerA w r =
       Panic ''runtime error: invalid memory address or nil pointer dereference''"
    using w by (rule Listener_handle_nil_wg)
  have p: "pickListener RandomAlg rng [listenerA] =
      Done (Inr listenerA, RandomAlg, rng\<lparr>pos := pos rng + 1\<rparr>)"
    by (simp add: pickListener_def Intn_def index_def)
  have sl: "select_loop [listenerA] Map.empty None RandomAlg rng =
      Some (Done (Inr listenerA, RandomAlg, rng\<lparr>pos := pos rng + 1\<rparr>))"
    apply (subst select_loop.simps)
    apply (simp add: p)
    apply (subst select_loop.simps)
    apply (simp add: map_index_def)
    done
  have s: "Server_handle lb (AddListener server0 listenerA) rng w r =
       Some (Panic ''runtime error: invalid memory address or nil pointer dereference'')"
    by (simp add: Server_handle_def AddListener_def server0_def DefaultBalancingAlgorithm_def
        Random_def sl h)
  from n w h s show ?thesis by simp
qed

text \<open>
  C3. A listener with a wait group forwards a request to a target that answers with
  status 404 and the body "not found". One request goes out; the client receives the
  body, with status 200: \<open>Listener.handle\<close> copies the body and never writes the
  status of the target.
\<close>

theorem Listener_handle_drops_status:
  "writer_of (Listener_handle (lib0 target_404) (listenerA\<lparr>wg := Some 0\<rparr>) w0 request0) =
     Some \<lparr>status = Some StatusOK, out = ''not found''\<rparr>
   \<and> length (sent_of (Listener_handle (lib0 target_404) (listenerA\<lparr>wg := Some 0\<rparr>) w0 request0)) = 1
   \<and> client_status \<lparr>status = Some StatusOK, out = ''not found''\<rparr> = 200"
  by (simp add: Listener_handle_def wg_Add_def lib0_def NewRequest0_def request0_def
      SplitHostPort0_def target_404_def io_Copy_def Write_def WriteHeader_def w0_def Let_def
      client_status_def StatusOK_def)


lemma Itoa0_8082: "Itoa0 8082 = ''8082''"
  by (simp add: Itoa0.simps [of 8082] Itoa0.simps [of 808] Itoa0.simps [of 80] Itoa0.simps [of 8])

lemma IP_String0_loopback: "IP_String0 [127, 0, 0, 1] = ''127.0.0.1''"
  by (simp add: IP_String0_def Itoa0.simps [of 127] Itoa0.simps [of 12] Itoa0.simps [of 1] Itoa0.simps [of 0])

lemmas run_defs = Listener_handle_def wg_Add_def wg_Done_def lib0_def NewRequest0_def
  SplitHostPort0_def Let_def Header_Get_def Header_Set_def getTargetAddr_def

lemma Listener_handle_returns:
  assumes "Listener_handle lb l w r = Done (l', w', sent)"
  shows "\<exists>n. wg l = Some n"
  using assms by (cases "wg l") (simp_all add: Listener_handle_def wg_Add_def)

lemma Listener_handle_forwards:
  assumes "wg l = Some n"
    and "NewRequest lb (Method r) (''http://'' @ getTargetAddr lb l) (Body r) = Inr pr"
    and "SplitHostPort lb (Host r) = Inr (h, p)"
  shows "\<exists>w' q. Listener_handle lb l w r = Done (l, w', [q])
    \<and> Header q = ((Header r)(''X-Forwarded-For'' \<mapsto> [xff_value r]))(''X-Forwarded-Port'' \<mapsto> [p])"
  using assms
  by (simp add: Listener_handle_def wg_Add_def wg_Done_after_Add target_of_Add Let_def
      Header_Set_def xff_value_def split: sum.splits)

text \<open>
  C7 (as amended). For every request \<open>q\<close> that \<open>Listener.handle\<close> sends to the
  target: when the inbound request has no \<open>X-Forwarded-For\<close> header, or has it with
  the empty string as its value, the outbound \<open>X-Forwarded-For\<close> is the remote
  address; when the inbound request has one \<open>X-Forwarded-For\<close> value \<open>v\<close> and \<open>v\<close>
  is not empty, the outbound value is \<open>v\<close>, a comma and the remote address. Nothing is
  said of an inbound request with several \<open>X-Forwarded-For\<close> values.
\<close>

theorem Listener_handle_X_Forwarded_For:
  assumes "Listener_handle lb l w r = Done (l', w', sent)" and "q \<in> set sent"
  shows "(Header r ''X-Forwarded-For'' = None \<longrightarrow>
            Header q ''X-Forwarded-For'' = Some [RemoteAddr r])
    \<and> (Header r ''X-Forwarded-For'' = Some [[]] \<longrightarrow>
            Header q ''X-Forwarded-For'' = Some [RemoteAddr r])
    \<and> (\<forall>v. v \<noteq> [] \<and> Header r ''X-Forwarded-For'' = Some [v] \<longrightarrow>
            Header q ''X-Forwarded-For'' = Some [v @ '','' @ RemoteAddr r])"
proof -
  from Listener_handle_sent [OF assms] obtain h p where
    q: "Header q = ((Header r)(''X-Forwarded-For'' \<mapsto> [xff_value r]))(''X-Forwarded-Port'' \<mapsto> [p])"
    by blast
  have x: "Header q ''X-Forwarded-For'' = Some [xff_value r]"
    unfolding q by simp
  show ?thesis
    unfolding x by (auto simp: xff_value_def Header_Get_def)
qed

theorem Listener_handle_X_Forwarded_For_witness:
  "Header request_xff ''X-Forwarded-For'' = Some [''1.2.3.4'']
   \<and> RemoteAddr request_xff = ''5.6.7.8''
   \<and> sent_headers (Listener_handle (lib0 target_ok) (listenerA\<lparr>wg := Some 0\<rparr>) w0 request_xff)
        ''X-Forwarded-For'' = [Some [''1.2.3.4,5.6.7.8'']]
   \<and> Header request0 ''X-Forwarded-For'' = None
   \<and> sent_headers (Listener_handle (lib0 target_ok) (listenerA\<lparr>wg := Some 0\<rparr>) w0 request0)
        ''X-Forwarded-For'' = [Some [''5.6.7.8'']]
   \<and> Header request_empty_xff ''X-Forwarded-For'' = Some [[]]
   \<and> sent_headers (Listener_handle (lib0 target_ok) (listenerA\<lparr>wg := Some 0\<rparr>) w0
        request_empty_xff) ''X-Forwarded-For'' = [Some [''5.6.7.8'']]"
proof -
  let ?l = "listenerA\<lparr>wg := Some 0\<rparr>"
  obtain l3 w3 q3 where run3:
    "Listener_handle (lib0 target_ok) ?l w0 request_empty_xff = Done (l3, w3, [q3])"
    by (simp add: run_defs target_ok_def request_empty_xff_def request0_def)
  have h3: "Header request_empty_xff ''X-Forwarded-For'' = Some [[]]"
    and a3: "RemoteAddr request_empty_xff = ''5.6.7.8''"
    by (simp_all add: request_empty_xff_def request0_def)
  have x3: "Header q3 ''X-Forwarded-For'' = Some [''5.6.7.8'']"
    using Listener_handle_X_Forwarded_For [OF run3, of q3] h3 a3 by simp
  obtain l1 w1 q1 where run1:
    "Listener_handle (lib0 target_ok) ?l w0 request_xff = Done (l1, w1, [q1])"
    by (simp add: run_defs target_ok_def request_xff_def request0_def)
  obtain l2 w2 q2 where run2:
    "Listener_handle (lib0 target_ok) ?l w0 request0 = Done (l2, w2, [q2])"
    by (simp add: run_defs target_ok_def request0_def)
  have h1: "Header request_xff ''X-Forwarded-For'' = Some [''1.2.3.4'']"
    and a1: "RemoteAddr request_xff = ''5.6.7.8''"
    by (simp_all add: request_xff_def request0_def)
  have h2: "Header request0 ''X-Forwarded-For'' = None"
    and a2: "RemoteAddr request0 = ''5.6.7.8''"
    by (simp_all add: request0_def)
  have "Header q1 ''X-Forwarded-For'' = Some [''1.2.3.4,5.6.7.8'']"
    using Listener_handle_X_Forwarded_For [OF run1, of q1] h1 a1 by simp
  moreover have "Header q2 ''X-Forwarded-For'' = Some [''5.6.7.8'']"
    using Listener_handle_X_Forwarded_For [OF run2, of q2] h2 a2 by simp
  ultimately show ?thesis
    using h1 a1 h2 h3 x3 by (simp add: sent_headers_def run1 run2 run3)
qed

text \<open>
  C7 as stated fails for an inbound \<open>X-Forwarded-For\<close> header whose value is empty:
  the outbound value is the remote address alone, not a comma and the remote address.
\<close>

theorem Listener_handle_X_Forwarded_For_empty_value:
  "Header request_empty_xff ''X-Forwarded-For'' = Some [[]]
   \<and> RemoteAddr request_empty_xff = ''5.6.7.8''
   \<and> sent_headers (Listener_handle (lib0 target_ok) (listenerA\<lparr>wg := Some 0\<rparr>) w0
        request_empty_xff) ''X-Forwarded-For'' = [Some [''5.6.7.8'']]
   \<and> sent_headers (Listener_handle (lib0 target_ok) (listenerA\<lparr>wg := Some 0\<rparr>) w0
        request_empty_xff) ''X-Forwarded-For'' \<noteq> [Some [[] @ '','' @ ''5.6.7.8'']]"
  by (simp add: run_defs sent_headers_def target_ok_def request_empty_xff_def request0_def)

text \<open>
  C5 (as amended). For every request \<open>q\<close> that \<open>Listener.handle\<close> sends to the
  target, the \<open>Host\<close> of the inbound request splits into host and port, and the
  outbound \<open>X-Forwarded-Port\<close> is that port. When \<open>Host\<close> does not split, every
  call of \<open>Listener.handle\<close> that returns has sent nothing to the target and has
  answered with the message "unable to create forwarded request" and, on a writer
  nothing was written to, the status 500, Internal Server Error. When \<open>Host\<close> splits
  and the outbound request is built, a call that returns has sent one request, with
  that port. A call on a listener whose \<open>wg\<close> is nil does not return, whatever the
  \<open>Host\<close> is: that is C4, and nothing is said of it here.
\<close>

theorem Listener_handle_X_Forwarded_Port:
  "(\<forall>l' w' sent q. Listener_handle lb l w r = Done (l', w', sent) \<and> q \<in> set sent \<longrightarrow>
      (\<exists>h p. SplitHostPort lb (Host r) = Inr (h, p)
         \<and> Header q ''X-Forwarded-Port'' = Some [p]))
   \<and> (\<forall>l' w' sent e. Listener_handle lb l w r = Done (l', w', sent)
         \<and> SplitHostPort lb (Host r) = Inl e \<longrightarrow>
      sent = []
      \<and> w' = http_Error w ''unable to create forwarded request'' StatusInternalServerError
      \<and> (status w = None \<longrightarrow> client_status w' = 500))
   \<and> (\<forall>l' w' sent h p pr. Listener_handle lb l w r = Done (l', w', sent)
         \<and> SplitHostPort lb (Host r) = Inr (h, p)
         \<and> NewRequest lb (Method r) (''http://'' @ getTargetAddr lb l) (Body r) = Inr pr \<longrightarrow>
      (\<exists>q. sent = [q] \<and> Header q ''X-Forwarded-Port'' = Some [p]))"
proof (intro conjI allI impI)
  fix l' w' sent q
  assume a: "Listener_handle lb l w r = Done (l', w', sent) \<and> q \<in> set sent"
  then obtain h p where s: "SplitHostPort lb (Host r) = Inr (h, p)" and
    q: "Header q = ((Header r)(''X-Forwarded-For'' \<mapsto> [xff_value r]))(''X-Forwarded-Port'' \<mapsto> [p])"
    using Listener_handle_sent [of lb l w r l' w' sent q] by blast
  have "Header q ''X-Forwarded-Port'' = Some [p]"
    unfolding q by simp
  with s show "\<exists>h p. SplitHostPort lb (Host r) = Inr (h, p)
      \<and> Header q ''X-Forwarded-Port'' = Some [p]"
    by blast
next
  fix l' w' sent e
  assume a: "Listener_handle lb l w r = Done (l', w', sent)
      \<and> SplitHostPort lb (Host r) = Inl e"
  then obtain n where n: "wg l = Some n"
    using Listener_handle_returns by blast
  have run: "Listener_handle lb l w r =
      Done (l, http_Error w ''unable to create forwarded request'' StatusInternalServerError, [])"
    using n a by (intro Listener_handle_no_port) auto
  with a show "sent = []" by simp
  from run a show w': "w' = http_Error w ''unable to create forwarded request''
      StatusInternalServerError"
    by simp
  assume "status w = None"
  then show "client_status w' = 500"
    unfolding w' by (simp add: http_Error_status StatusInternalServerError_def)
next
  fix l' w' sent h p pr
  assume a: "Listener_handle lb l w r = Done (l', w', sent)
      \<and> SplitHostPort lb (Host r) = Inr (h, p)
      \<and> NewRequest lb (Method r) (''http://'' @ getTargetAddr lb l) (Body r) = Inr pr"
  then obtain n where n: "wg l = Some n"
    using Listener_handle_returns by blast
  from Listener_handle_forwards [OF n, of lb r pr h p w] a obtain w'' q where
    run: "Listener_handle lb l w r = Done (l, w'', [q])" and
    q: "Header q = ((Header r)(''X-Forwarded-For'' \<mapsto> [xff_value r]))(''X-Forwarded-Port'' \<mapsto> [p])"
    by blast
  have "Header q ''X-Forwarded-Port'' = Some [p]"
    unfolding q by simp
  with run a show "\<exists>q. sent = [q] \<and> Header q ''X-Forwarded-Port'' = Some [p]"
    by simp
qed

theorem Listener_handle_X_Forwarded_Port_witness:
  "Host request0 = ''127.0.0.1:8080''
   \<and> SplitHostPort (lib0 target_ok) (Host request0) = Inr (''127.0.0.1'', ''8080'')
   \<and> sent_headers (Listener_handle (lib0 target_ok) (listenerA\<lparr>wg := Some 0\<rparr>) w0 request0)
        ''X-Forwarded-Port'' = [Some [''8080'']]
   \<and> SplitHostPort (lib0 target_ok) (Host request_no_port) = Inl ''missing port in address''
   \<and> status w0 = None
   \<and> Listener_handle (lib0 target_ok) (listenerA\<lparr>wg := Some 0\<rparr>) w0 request_no_port =
       Done (listenerA\<lparr>wg := Some 0\<rparr>,
         \<lparr>status = Some 500, out = ''unable to create forwarded request'' @ [CHR 0x0A]\<rparr>, [])"
proof -
  let ?l = "listenerA\<lparr>wg := Some 0\<rparr>"
  let ?lb = "lib0 target_ok"
  note t1 = Listener_handle_X_Forwarded_Port [of ?lb ?l w0 request0]
  note t2 = Listener_handle_X_Forwarded_Port [of ?lb ?l w0 request_no_port]
  obtain l1 w1 s1 where run1: "Listener_handle ?lb ?l w0 request0 = Done (l1, w1, s1)"
    by (simp add: run_defs target_ok_def request0_def)
  have host: "Host request0 = ''127.0.0.1:8080''" by (simp add: request0_def)
  have sp: "SplitHostPort ?lb (Host request0) = Inr (''127.0.0.1'', ''8080'')"
    by (simp add: lib0_def SplitHostPort0_def request0_def)
  have nr: "\<exists>pr. NewRequest ?lb (Method request0) (''http://'' @ getTargetAddr ?lb ?l)
      (Body request0) = Inr pr"
    by (simp add: lib0_def NewRequest0_def)
  from t1 run1 sp nr have "\<exists>q. s1 = [q] \<and> Header q ''X-Forwarded-Port'' = Some [''8080'']"
    by blast
  then have p1: "sent_headers (Listener_handle ?lb ?l w0 request0) ''X-Forwarded-Port'' =
      [Some [''8080'']]"
    by (auto simp: sent_headers_def run1)
  obtain l2 w2 s2 where run2: "Listener_handle ?lb ?l w0 request_no_port = Done (l2, w2, s2)"
    and l2: "l2 = ?l"
    by (simp add: run_defs request_no_port_def request0_def)
  have np: "SplitHostPort ?lb (Host request_no_port) = Inl ''missing port in address''"
    by (simp add: lib0_def SplitHostPort0_def request_no_port_def request0_def)
  have st: "status w0 = None" by (simp add: w0_def)
  from t2 run2 np have s2: "s2 = []" and
    w2: "w2 = http_Error w0 ''unable to create forwarded request'' StatusInternalServerError"
    by blast+
  have e: "http_Error w0 ''unable to create forwarded request'' StatusInternalServerError =
      \<lparr>status = Some 500, out = ''unable to create forwarded request'' @ [CHR 0x0A]\<rparr>"
    by (simp add: http_Error_def Write_def WriteHeader_def w0_def StatusInternalServerError_def
        Let_def)
  show ?thesis
    using host sp p1 np st by (simp add: run2 l2 s2 w2 e)
qed

text \<open>
  C5 as stated fails in the status: a \<open>Host\<close> without a port is answered with 500,
  not with 502 (Bad Gateway), and nothing is sent to the target. On a listener as
  \<open>NewListener\<close> returns it, the same request is not answered at all: the call panics.
\<close>

theorem Listener_handle_no_port_status_500:
  "SplitHostPort (lib0 target_ok) (Host request_no_port) = Inl ''missing port in address''
   \<and> map_option client_status
        (writer_of (Listener_handle (lib0 target_ok) (listenerA\<lparr>wg := Some 0\<rparr>) w0
           request_no_port)) = Some StatusInternalServerError
   \<and> StatusInternalServerError \<noteq> StatusBadGateway
   \<and> sent_of (Listener_handle (lib0 target_ok) (listenerA\<lparr>wg := Some 0\<rparr>) w0
        request_no_port) = []
   \<and> Listener_handle (lib0 target_ok) listenerA w0 request_no_port =
        Panic ''runtime error: invalid memory address or nil pointer dereference''"
  by (simp add: run_defs request_no_port_def request0_def http_Error_def Write_def
      WriteHeader_def w0_def client_status_def StatusInternalServerError_def StatusBadGateway_def
      listenerA_def)


section \<open>Stopping the server\<close>

lemma Stop_stopped: "stopped s \<Longrightarrow> Stop s = (Returned (Some ErrServerStopped), s)"
  by (simp add: Stop_def)

lemma wait_all_drained: "\<forall>l \<in> set ls. wg l = Some 0 \<Longrightarrow> wait_all ls = Returned None"
  by (induction ls) simp_all

lemma wait_all_returns: "wait_all ls = Returned e \<Longrightarrow> e = None \<and> (\<forall>l \<in> set ls. wg l = Some 0)"
  by (induction ls) (auto split: option.splits nat.splits)

lemma Stop_drained:
  "\<not> stopped s \<Longrightarrow> \<forall>l \<in> set (listeners s). wg l = Some 0 \<Longrightarrow>
   Stop s = (Returned None, s\<lparr>stopped := True\<rparr>)"
  by (simp add: Stop_def Let_def wait_all_drained)

lemma Stop_returns:
  "\<not> stopped s \<Longrightarrow> Stop s = (Returned e, s') \<Longrightarrow>
   e = None \<and> s' = s\<lparr>stopped := True\<rparr> \<and> (\<forall>l \<in> set (listeners s). wg l = Some 0)"
  by (auto simp: Stop_def Let_def dest: wait_all_returns)

text \<open>
  C6. The server of \<open>main\<close>, not stopped, with two listeners from
  \<open>NewListener\<close>. \<open>Stop\<close> sets the stopped flag and then panics at the first
  \<open>listener.wg.Wait()\<close>, through the nil pointer: it does not return without error.
\<close>

theorem Stop_main_panics:
  "\<not> stopped server_main
   \<and> Stop server_main =
       (Panicked ''runtime error: invalid memory address or nil pointer dereference'',
        server_main\<lparr>stopped := True\<rparr>)"
  by (simp add: Stop_def Let_def server_main_def AddListener_def server0_def listenerA_def)

end
